theory Spec2Isabelle
  imports Main "HOL-Library.Word"
begin

unbundle bit_operations_syntax

section \<open>Data model of \<open>libs/ardour/midi_source.cc\<close>\<close>

text \<open>
  The file implements \<open>ARDOUR::MidiSource\<close>. Its collaborators (the Temporal time
  types, the Evoral sequence, the event type map, the XML property reader, the storage
  backend of the subclass) are declared elsewhere; what the functions below need from
  them is passed in through the record \<open>Env\<close> or as a function argument.
\<close>

type_synonym u8 = "8 word"

text \<open>\<open>samplecnt_t\<close> is a signed 64-bit integer; its sum wraps around in two's
  complement.\<close>

type_synonym samplecnt_t = "64 word"

text \<open>Automation types named by the type switch of \<open>set_state\<close>; every other
  type is \<open>OtherAutomation\<close> (the \<open>default:\<close> label).\<close>

datatype AutomationType =
    MidiCCAutomation
  | MidiPgmChangeAutomation
  | MidiChannelPressureAutomation
  | MidiNotePressureAutomation
  | MidiPitchBenderAutomation
  | MidiSystemExclusiveAutomation
  | OtherAutomation nat

datatype Parameter = Parameter (ptype: AutomationType) (channel: nat) (param_id: nat)

text \<open>\<open>AutomationList::InterpolationStyle\<close> and \<open>AutoState\<close> are enumerations
  declared in headers. The file names \<open>Discrete\<close>, \<open>Linear\<close>, \<open>Off\<close> and
  \<open>Play\<close>; any further enumerator is \<open>OtherStyle\<close> or \<open>OtherState\<close>.\<close>

datatype InterpolationStyle = Discrete | Linear | OtherStyle nat

datatype AutoState = Off | Play | OtherState nat

datatype TimeDomain = AudioTime | BeatTime

datatype timepos_t = Timepos (pos_domain: TimeDomain) (pos_val: int)

datatype timecnt_t = Timecnt (time_domain: TimeDomain) (distance: int)

datatype Range = Range timepos_t timepos_t

text \<open>Signals emitted by a source, in the order of emission.\<close>

datatype Signal =
    Invalidated bool
  | ModelChanged
  | InterpolationChanged Parameter InterpolationStyle
  | AutomationStateChanged Parameter AutoState

text \<open>Calls a source receives that are implemented outside this file: the model
  writing into it, and the virtual functions of the file-backed subclass.
  \<open>LoadModel None\<close> is \<open>load_model (lock)\<close>, \<open>LoadModel (Some b)\<close> is
  \<open>load_model (lock, b)\<close>.\<close>

datatype Call =
    ModelWriteTo
  | ModelWriteSectionTo int int
  | FlushMidi
  | LoadModel "bool option"
  | DestroyModel
  | PreventDeletion

record Event =
  time :: int
  event_type :: nat
  buffer :: "u8 list"

text \<open>A control of the model: its parameter and, when it has an automation list, the
  interpolation of that list.\<close>

record Control =
  parameter :: Parameter
  list_interpolation :: "InterpolationStyle option"

record MidiModel =
  events :: "Event list"
  controls :: "(Parameter \<times> Control) list"

record MidiSource =
  natural_position :: timepos_t
  writing :: bool
  capture_length :: samplecnt_t
  captured_for :: string
  model :: "MidiModel option"
  interpolation_style :: "Parameter \<rightharpoonup> InterpolationStyle"
  automation_state :: "Parameter \<rightharpoonup> AutoState"
  signals :: "Signal list"
  calls :: "Call list"

text \<open>The cursor of a reader. \<open>iter\<close> is the cached sequence iterator: \<open>Some k\<close>
  points at the \<open>k\<close>-th event of the model, \<open>None\<close> is the end iterator, which is
  not \<open>valid()\<close>.\<close>

record MidiCursor =
  iter :: "nat option"
  active_notes :: "nat set"
  last_read_end :: timepos_t
  connected :: bool

datatype XMLNode = XMLNode (name: string) (properties: "(string \<times> string) list") (children: "XMLNode list")

datatype LogMsg =
    MissingParameterInterpolationStyle
  | MissingStyle
  | MissingParameterAutomationState
  | MissingState
  | IsSystemExclusive string
  | NotLegal string

text \<open>What one written event looks like in the sink: \<open>dst.write (time, type, size, buf)\<close>.\<close>

type_synonym Sink = "(int \<times> nat \<times> nat \<times> u8 list) list"

text \<open>A note tracker is the list of events it was given, or absent.\<close>

type_synonym Tracker = "Event list option"

text \<open>A channel filter: \<open>filter (buf, size)\<close> may rewrite the buffer in place and
  returns true when the event is to be dropped.\<close>

type_synonym ChannelFilter = "u8 list \<Rightarrow> bool \<times> u8 list"

record Env =
  evmap_interpolation_of :: "Parameter \<Rightarrow> InterpolationStyle"
  evmap_from_symbol :: "string \<Rightarrow> Parameter"
  string_to_style :: "string \<Rightarrow> InterpolationStyle option"
  string_to_state :: "string \<Rightarrow> AutoState option"
  transport_rolling :: bool
  pos_is_zero :: "timepos_t \<Rightarrow> bool"
  pos_beats :: "timepos_t \<Rightarrow> int"
  pos_samples :: "timepos_t \<Rightarrow> int"
  pos_plus_pos :: "timepos_t \<Rightarrow> timepos_t \<Rightarrow> timepos_t"
  pos_plus_cnt :: "timepos_t \<Rightarrow> timecnt_t \<Rightarrow> timepos_t"
  cnt_beats :: "timecnt_t \<Rightarrow> int"
  cnt_samples :: "timecnt_t \<Rightarrow> samplecnt_t"
  cnt_max :: "TimeDomain \<Rightarrow> timecnt_t"
  beats_max :: int
  squish :: "Range \<Rightarrow> timepos_t \<Rightarrow> timepos_t"
  seq_begin :: "Event list \<Rightarrow> int \<Rightarrow> Parameter set \<Rightarrow> nat option"
  end_write :: "MidiModel \<Rightarrow> bool \<Rightarrow> int \<Rightarrow> MidiModel"

section \<open>Parameter metadata\<close>

definition interpolation_of :: "Env \<Rightarrow> MidiSource \<Rightarrow> Parameter \<Rightarrow> InterpolationStyle" where
  "interpolation_of E s p =
     (case interpolation_style s p of
        None \<Rightarrow> evmap_interpolation_of E p
      | Some v \<Rightarrow> v)"

definition automation_state_of :: "MidiSource \<Rightarrow> Parameter \<Rightarrow> AutoState" where
  "automation_state_of s p =
     (case automation_state s p of
        None \<Rightarrow> Play
      | Some v \<Rightarrow> v)"

definition set_interpolation_of :: "Env \<Rightarrow> Parameter \<Rightarrow> InterpolationStyle \<Rightarrow> MidiSource \<Rightarrow> MidiSource" where
  "set_interpolation_of E p st s =
     (if interpolation_of E s p = st then s
      else
        (if evmap_interpolation_of E p = st
         then s\<lparr>interpolation_style := (interpolation_style s)(p := None)\<rparr>
         else s\<lparr>interpolation_style := (interpolation_style s)(p \<mapsto> st)\<rparr>)
        \<lparr>signals := signals s @ [InterpolationChanged p st]\<rparr>)"

definition set_automation_state_of :: "Parameter \<Rightarrow> AutoState \<Rightarrow> MidiSource \<Rightarrow> MidiSource" where
  "set_automation_state_of p st s =
     (if automation_state_of s p = st then s
      else
        (if st = Play
         then s\<lparr>automation_state := (automation_state s)(p := None)\<rparr>
         else s\<lparr>automation_state := (automation_state s)(p \<mapsto> st)\<rparr>)
        \<lparr>signals := signals s @ [AutomationStateChanged p st]\<rparr>)"

definition copy_interpolation_from :: "MidiSource \<Rightarrow> MidiSource \<Rightarrow> MidiSource" where
  "copy_interpolation_from src this = this\<lparr>interpolation_style := interpolation_style src\<rparr>"

definition copy_automation_state_from :: "MidiSource \<Rightarrow> MidiSource \<Rightarrow> MidiSource" where
  "copy_automation_state_from src this = this\<lparr>automation_state := automation_state src\<rparr>"

definition invalidate :: "Env \<Rightarrow> MidiSource \<Rightarrow> MidiSource" where
  "invalidate E s = s\<lparr>signals := signals s @ [Invalidated (transport_rolling E)]\<rparr>"

section \<open>Deserialisation: \<open>set_state\<close>\<close>

text \<open>\<open>XMLNode::get_property (name, std::string&)\<close>: the value of the first property
  of that name.\<close>

definition get_property :: "XMLNode \<Rightarrow> string \<Rightarrow> string option" where
  "get_property n k = map_of (properties n) k"

text \<open>\<open>get_property\<close> into an enumeration: false when the property is absent or its
  text does not convert.\<close>

definition get_property_style :: "Env \<Rightarrow> XMLNode \<Rightarrow> string \<Rightarrow> InterpolationStyle option" where
  "get_property_style E n k =
     (case get_property n k of None \<Rightarrow> None | Some str \<Rightarrow> string_to_style E str)"

definition get_property_state :: "Env \<Rightarrow> XMLNode \<Rightarrow> string \<Rightarrow> AutoState option" where
  "get_property_state E n k =
     (case get_property n k of None \<Rightarrow> None | Some str \<Rightarrow> string_to_state E str)"

text \<open>One pass through the body of the loop over the children: it either leaves
  \<open>set_state\<close> with \<open>return -1\<close> after a message on the error stream, or goes on to
  the next child (by \<open>continue\<close> or by reaching the end of the body) with the source
  as it now is and what was printed to \<open>cerr\<close>.\<close>

datatype Iteration = ReturnError LogMsg | Continue MidiSource "LogMsg list"

definition set_state_child :: "Env \<Rightarrow> XMLNode \<Rightarrow> MidiSource \<Rightarrow> Iteration" where
  "set_state_child E c s =
     (if name c = ''InterpolationStyle'' then
        (case get_property c ''parameter'' of
           None \<Rightarrow> ReturnError MissingParameterInterpolationStyle
         | Some str \<Rightarrow>
            (let p = evmap_from_symbol E str in
             (case ptype p of
                MidiSystemExclusiveAutomation \<Rightarrow> Continue s [IsSystemExclusive str]
              | OtherAutomation n \<Rightarrow> Continue s [NotLegal str]
              | _ \<Rightarrow>
                 (case get_property c ''style'' of
                    Some [] \<Rightarrow>
                      Continue
                        (set_interpolation_of E p
                           (if evmap_interpolation_of E p = Discrete then Linear else Discrete) s) []
                  | _ \<Rightarrow>
                     (case get_property_style E c ''style'' of
                        None \<Rightarrow> ReturnError MissingStyle
                      | Some st \<Rightarrow> Continue (set_interpolation_of E p st s) [])))))
      else if name c = ''AutomationState'' then
        (case get_property c ''parameter'' of
           None \<Rightarrow> ReturnError MissingParameterAutomationState
         | Some str \<Rightarrow>
            (let p = evmap_from_symbol E str in
             (case get_property c ''state'' of
                Some [] \<Rightarrow> Continue (set_automation_state_of p Off s) []
              | _ \<Rightarrow>
                 (case get_property_state E c ''state'' of
                    None \<Rightarrow> ReturnError MissingState
                  | Some st \<Rightarrow> Continue (set_automation_state_of p st s) []))))
      else Continue s [])"

fun set_state_children :: "Env \<Rightarrow> XMLNode list \<Rightarrow> MidiSource \<Rightarrow> LogMsg list \<Rightarrow> int \<times> MidiSource \<times> LogMsg list" where
  "set_state_children E [] s log = (0, s, log)"
| "set_state_children E (c # cs) s log =
     (case set_state_child E c s of
        ReturnError m \<Rightarrow> (- 1, s, log @ [m])
      | Continue s' ms \<Rightarrow> set_state_children E cs s' (log @ ms))"

definition set_state :: "Env \<Rightarrow> XMLNode \<Rightarrow> MidiSource \<Rightarrow> int \<times> MidiSource \<times> LogMsg list" where
  "set_state E node s =
     set_state_children E (children node)
       (case get_property node ''captured-for'' of
          None \<Rightarrow> s
        | Some v \<Rightarrow> s\<lparr>captured_for := v\<rparr>) []"

section \<open>Capture: \<open>midi_write\<close> and the end of a streaming write\<close>

text \<open>\<open>write_unlocked\<close> is the pure virtual of the storage backend: it may change the
  source and returns the count it reports as written.\<close>

definition midi_write ::
  "Env \<Rightarrow> ('rb \<Rightarrow> timepos_t \<Rightarrow> timecnt_t \<Rightarrow> MidiSource \<Rightarrow> timecnt_t \<times> MidiSource)
     \<Rightarrow> 'rb \<Rightarrow> timepos_t \<Rightarrow> timecnt_t \<Rightarrow> MidiSource \<Rightarrow> timecnt_t \<times> MidiSource" where
  "midi_write E write_unlocked source source_start cnt s =
     (let (ret, s1) = write_unlocked source source_start cnt s in
      if cnt = cnt_max E (time_domain cnt)
      then (ret, invalidate E s1)
      else (ret, s1\<lparr>capture_length := capture_length s1 + cnt_samples E cnt\<rparr>))"

text \<open>\<open>std::map::insert\<close>: the pair is stored only when the key has no entry yet.\<close>

definition map_insert :: "('k \<rightharpoonup> 'v) \<Rightarrow> 'k \<Rightarrow> 'v \<Rightarrow> ('k \<rightharpoonup> 'v)" where
  "map_insert m k v = (case m k of None \<Rightarrow> m(k \<mapsto> v) | Some w \<Rightarrow> m)"

text \<open>The loop over \<open>_model->controls()\<close> in \<open>mark_midi_streaming_write_completed\<close>.\<close>

fun discrete_controls ::
  "(Parameter \<times> Control) list \<Rightarrow> (Parameter \<rightharpoonup> InterpolationStyle)
     \<Rightarrow> (Parameter \<times> Control) list \<times> (Parameter \<rightharpoonup> InterpolationStyle)" where
  "discrete_controls [] m = ([], m)"
| "discrete_controls ((k, c) # cs) m =
     (case list_interpolation c of
        None \<Rightarrow> (let (cs', m') = discrete_controls cs m in ((k, c) # cs', m'))
      | Some old \<Rightarrow>
         (let (cs', m') = discrete_controls cs (map_insert m (parameter c) Discrete)
          in ((k, c\<lparr>list_interpolation := Some Discrete\<rparr>) # cs', m')))"

definition mark_midi_streaming_write_completed :: "Env \<Rightarrow> bool \<Rightarrow> timecnt_t \<Rightarrow> MidiSource \<Rightarrow> MidiSource" where
  "mark_midi_streaming_write_completed E option duration s =
     (let s1 =
        (case model s of
           None \<Rightarrow> s
         | Some m \<Rightarrow>
            (let m1 = end_write E m option (cnt_beats E duration);
                 (cs, im) = discrete_controls (controls m1) (interpolation_style s)
             in s\<lparr>model := Some (m1\<lparr>controls := cs\<rparr>), interpolation_style := im\<rparr>))
      in (invalidate E s1)\<lparr>writing := False\<rparr>)"

section \<open>Cloning: \<open>write_to\<close>\<close>

definition call :: "Call \<Rightarrow> MidiSource \<Rightarrow> MidiSource" where
  "call c s = s\<lparr>calls := calls s @ [c]\<rparr>"

text \<open>\<open>write_to\<close> of the source \<open>this\<close> into \<open>newsrc\<close>, a file source; the result
  is the status and the target as it was left.\<close>

definition write_to :: "Env \<Rightarrow> MidiSource \<Rightarrow> MidiSource \<Rightarrow> int \<Rightarrow> int \<Rightarrow> int \<times> MidiSource" where
  "write_to E this newsrc begin end' =
     (let n1 = newsrc\<lparr>natural_position := natural_position this\<rparr>;
          n2 = copy_interpolation_from this n1;
          n3 = copy_automation_state_from this n2
      in case model this of
           None \<Rightarrow> (- 1, n3)
         | Some m \<Rightarrow>
            (let n4 = (if begin = 0 \<and> end' = beats_max E
                       then call ModelWriteTo n3
                       else call (ModelWriteSectionTo begin end') n3);
                 n5 = call FlushMidi n4;
                 n6 = (if begin \<noteq> 0 \<or> end' \<noteq> beats_max E
                       then call (LoadModel (Some True)) n5
                       else call (LoadModel None) (call DestroyModel n5))
             in (0, call PreventDeletion n6)))"

section \<open>Reading: \<open>midi_read\<close>\<close>

definition is_channel_event :: "u8 \<Rightarrow> bool" where
  "is_channel_event status = (0x80 \<le> (status AND 0xF0) \<and> status \<le> 0xE0)"

text \<open>Reading \<open>buffer()[0]\<close> of an event without bytes is outside the buffer.\<close>

datatype ReadError = EmptyBuffer

text \<open>What is done with an event inside the window, once its sample time is known:
  the write to the sink (through the filter, on a copy, for a channel event when a
  filter is given) and the note tracker, which is given the event of the model.\<close>

definition emit_event ::
  "ChannelFilter option \<Rightarrow> int \<Rightarrow> Event \<Rightarrow> Sink \<Rightarrow> Tracker \<Rightarrow> ReadError + (Sink \<times> Tracker)" where
  "emit_event filter_opt time_samples e dst tracker =
     (case buffer e of
        [] \<Rightarrow> Inl EmptyBuffer
      | status # rest \<Rightarrow>
         (let dst' =
            (case filter_opt of
               Some f \<Rightarrow>
                 (if is_channel_event status
                  then (let (rejected, buf) = f (buffer e) in
                        if \<not> rejected
                        then dst @ [(time_samples, event_type e, length (buffer e), buf)]
                        else dst)
                  else dst @ [(time_samples, event_type e, length (buffer e), buffer e)])
             | None \<Rightarrow> dst @ [(time_samples, event_type e, length (buffer e), buffer e)]);
              tracker' = (case tracker of None \<Rightarrow> None | Some tr \<Rightarrow> Some (tr @ [e]))
          in Inr (dst', tracker')))"

text \<open>The loop \<open>for (; i != _model->end(); ++i)\<close>. The list is what is left of the
  model's events from the iterator on and \<open>k\<close> is the iterator's index; the result holds
  the iterator as the loop leaves it (\<open>None\<close> at the end of the model).\<close>

fun read_events ::
  "Env \<Rightarrow> Range option \<Rightarrow> ChannelFilter option \<Rightarrow> int \<Rightarrow> int \<Rightarrow> int
     \<Rightarrow> Event list \<Rightarrow> nat \<Rightarrow> Sink \<Rightarrow> Tracker \<Rightarrow> ReadError + (nat option \<times> Sink \<times> Tracker)" where
  "read_events E loop_range filter_opt source_start_beats session_source_start end' [] k dst tracker =
     Inr (None, dst, tracker)"
| "read_events E loop_range filter_opt source_start_beats session_source_start end' (e # es) k dst tracker =
     (let session_event_beats = source_start_beats + time e in
      if session_event_beats < session_source_start
      then read_events E loop_range filter_opt source_start_beats session_source_start end' es (Suc k) dst tracker
      else if session_event_beats \<ge> end'
      then Inr (Some k, dst, tracker)
      else
        (let seb = Timepos BeatTime session_event_beats;
             time_samples =
               (case loop_range of
                  None \<Rightarrow> pos_samples E seb
                | Some r \<Rightarrow> pos_samples E (squish E r seb))
         in case emit_event filter_opt time_samples e dst tracker of
              Inl err \<Rightarrow> Inl err
            | Inr (dst', tracker') \<Rightarrow>
                read_events E loop_range filter_opt source_start_beats session_source_start end' es (Suc k) dst' tracker'))"

text \<open>The loop entered with the iterator \<open>i\<close>: nothing is read from the end
  iterator.\<close>

definition read_from ::
  "Env \<Rightarrow> Range option \<Rightarrow> ChannelFilter option \<Rightarrow> int \<Rightarrow> int \<Rightarrow> int
     \<Rightarrow> MidiModel \<Rightarrow> nat option \<Rightarrow> Sink \<Rightarrow> Tracker \<Rightarrow> ReadError + (nat option \<times> Sink \<times> Tracker)" where
  "read_from E loop_range filter_opt source_start_beats session_source_start end' m i dst tracker =
     (case i of
        None \<Rightarrow> Inr (None, dst, tracker)
      | Some k \<Rightarrow>
          read_events E loop_range filter_opt source_start_beats session_source_start end'
            (drop k (events m)) k dst tracker)"

text \<open>The choice of the iterator at the head of the modelled path, and the update of
  \<open>last_read_end\<close> that follows it.\<close>

definition linear_read :: "Env \<Rightarrow> timepos_t \<Rightarrow> MidiCursor \<Rightarrow> bool" where
  "linear_read E start cursor =
     (\<not> pos_is_zero E (last_read_end cursor) \<and> start = last_read_end cursor)"

definition iter_valid :: "nat option \<Rightarrow> bool" where
  "iter_valid i = (i \<noteq> None)"

definition find_iterator ::
  "Env \<Rightarrow> MidiModel \<Rightarrow> timepos_t \<Rightarrow> timecnt_t \<Rightarrow> Parameter set \<Rightarrow> MidiCursor \<Rightarrow> MidiCursor" where
  "find_iterator E m start cnt filtered cursor =
     (let c1 =
        (if \<not> linear_read E start cursor \<or> \<not> iter_valid (iter cursor)
         then cursor\<lparr>connected := True,
                     iter := seq_begin E (events m) (pos_beats E start) filtered,
                     active_notes := {}\<rparr>
         else cursor)
      in c1\<lparr>last_read_end := pos_plus_cnt E start cnt\<rparr>)"

text \<open>\<open>read_unlocked\<close> is the pure virtual of the storage backend, used when no model
  is attached: it returns a sample count and what it did to the sink and the tracker.\<close>

definition midi_read ::
  "Env
     \<Rightarrow> (Sink \<Rightarrow> timepos_t \<Rightarrow> timepos_t \<Rightarrow> timecnt_t \<Rightarrow> Range option \<Rightarrow> Tracker \<Rightarrow> ChannelFilter option
           \<Rightarrow> int \<times> Sink \<times> Tracker)
     \<Rightarrow> MidiSource \<Rightarrow> Sink \<Rightarrow> timepos_t \<Rightarrow> timepos_t \<Rightarrow> timecnt_t \<Rightarrow> Range option
     \<Rightarrow> MidiCursor \<Rightarrow> Tracker \<Rightarrow> ChannelFilter option \<Rightarrow> Parameter set
     \<Rightarrow> ReadError + (timecnt_t \<times> Sink \<times> MidiCursor \<times> Tracker)" where
  "midi_read E read_unlocked s dst source_start start cnt loop_range cursor tracker filter_opt filtered =
     (case model s of
        None \<Rightarrow>
          (let (n, dst', tracker') =
                 read_unlocked dst source_start start cnt loop_range tracker filter_opt
           in Inr (Timecnt AudioTime n, dst', cursor, tracker'))
      | Some m \<Rightarrow>
          (let c = find_iterator E m start cnt filtered cursor;
               source_start_beats = pos_beats E source_start;
               region_start_beats = pos_beats E start;
               cnt_beats' = cnt_beats E cnt;
               end' = source_start_beats + region_start_beats + cnt_beats';
               session_source_start = pos_beats E (pos_plus_pos E source_start start)
           in case read_from E loop_range filter_opt source_start_beats session_source_start end'
                     m (iter c) dst tracker
              of
                Inl err \<Rightarrow> Inl err
              | Inr (i', dst', tracker') \<Rightarrow> Inr (cnt, dst', c\<lparr>iter := i'\<rparr>, tracker')))"

section \<open>Required fields of a child entry\<close>

text \<open>A value that neither of the two \<open>get_property\<close> calls on it can use: the
  property is absent, or its text is not empty and does not convert.\<close>

definition unreadable :: "(string \<Rightarrow> 'a option) \<Rightarrow> string option \<Rightarrow> bool" where
  "unreadable conv v = (case v of None \<Rightarrow> True | Some str \<Rightarrow> str \<noteq> [] \<and> conv str = None)"

text \<open>The two labels of the type switch that end in \<open>continue\<close>.\<close>

definition rejected_type :: "AutomationType \<Rightarrow> bool" where
  "rejected_type t =
     (case t of MidiSystemExclusiveAutomation \<Rightarrow> True | OtherAutomation n \<Rightarrow> True | _ \<Rightarrow> False)"

text \<open>A child lacks a field that the loop asks of it: the parameter symbol of either
  kind of entry, the state of an AutomationState entry, and the style of an
  InterpolationStyle entry whose parameter type passed the switch.\<close>

definition lacks_required_field :: "Env \<Rightarrow> XMLNode \<Rightarrow> bool" where
  "lacks_required_field E c =
     ((name c = ''InterpolationStyle'' \<and>
        (case get_property c ''parameter'' of
           None \<Rightarrow> True
         | Some symb \<Rightarrow>
             \<not> rejected_type (ptype (evmap_from_symbol E symb)) \<and>
             unreadable (string_to_style E) (get_property c ''style'')))
      \<or> (name c = ''AutomationState'' \<and>
        (case get_property c ''parameter'' of
           None \<Rightarrow> True
         | Some symb \<Rightarrow> unreadable (string_to_state E) (get_property c ''state''))))"

section \<open>A concrete environment and concrete inputs\<close>

text \<open>A small instance of the collaborators, on which the functions above can be run:
  one time scale for beats and samples, program changes discrete by default and every
  other parameter linear, four parameter symbols.\<close>

fun first_at_or_after :: "Event list \<Rightarrow> int \<Rightarrow> nat \<Rightarrow> nat option" where
  "first_at_or_after [] t k = None"
| "first_at_or_after (e # es) t k = (if t \<le> time e then Some k else first_at_or_after es t (Suc k))"

definition demo_from_symbol :: "string \<Rightarrow> Parameter" where
  "demo_from_symbol symb =
     (if symb = ''midicc-0-7'' then Parameter MidiCCAutomation 0 7
      else if symb = ''midi-pgm-change-0'' then Parameter MidiPgmChangeAutomation 0 0
      else if symb = ''midi-pitch-bender-0'' then Parameter MidiPitchBenderAutomation 0 0
      else if symb = ''midi-system-exclusive'' then Parameter MidiSystemExclusiveAutomation 0 0
      else Parameter (OtherAutomation 0) 0 0)"

definition demo_string_to_style :: "string \<Rightarrow> InterpolationStyle option" where
  "demo_string_to_style str =
     (if str = ''Discrete'' then Some Discrete
      else if str = ''Linear'' then Some Linear
      else None)"

definition demo_string_to_state :: "string \<Rightarrow> AutoState option" where
  "demo_string_to_state str =
     (if str = ''Off'' then Some Off
      else if str = ''Play'' then Some Play
      else if str = ''Write'' then Some (OtherState 0)
      else None)"

definition demo_env :: Env where
  "demo_env =
     \<lparr>evmap_interpolation_of = (\<lambda>p. if ptype p = MidiPgmChangeAutomation then Discrete else Linear),
      evmap_from_symbol = demo_from_symbol,
      string_to_style = demo_string_to_style,
      string_to_state = demo_string_to_state,
      transport_rolling = False,
      pos_is_zero = (\<lambda>p. pos_val p = 0),
      pos_beats = pos_val,
      pos_samples = pos_val,
      pos_plus_pos = (\<lambda>a b. Timepos (pos_domain a) (pos_val a + pos_val b)),
      pos_plus_cnt = (\<lambda>a c. Timepos (pos_domain a) (pos_val a + distance c)),
      cnt_beats = distance,
      cnt_samples = (\<lambda>c. word_of_int (distance c)),
      cnt_max = (\<lambda>d. Timecnt d 4611686018427387904),
      beats_max = 4611686018427387904,
      squish = (\<lambda>r p. p),
      seq_begin = (\<lambda>evs t filtered. first_at_or_after evs t 0),
      end_write = (\<lambda>m option duration. m)\<rparr>"

definition demo_source :: MidiSource where
  "demo_source =
     \<lparr>natural_position = Timepos AudioTime 0,
      writing = False,
      capture_length = 0,
      captured_for = [],
      model = None,
      interpolation_style = Map.empty,
      automation_state = Map.empty,
      signals = [],
      calls = []\<rparr>"

definition cc7 :: Parameter where
  "cc7 = Parameter MidiCCAutomation 0 7"

definition pgm0 :: Parameter where
  "pgm0 = Parameter MidiPgmChangeAutomation 0 0"

definition sysex0 :: Parameter where
  "sysex0 = Parameter MidiSystemExclusiveAutomation 0 0"

text \<open>A backend that reports three samples written whatever was asked of it, and one
that reads nothing.\<close>

definition short_write :: "unit \<Rightarrow> timepos_t \<Rightarrow> timecnt_t \<Rightarrow> MidiSource \<Rightarrow> timecnt_t \<times> MidiSource" where
  "short_write rb source_start cnt s = (Timecnt AudioTime 3, s)"

definition no_read_unlocked ::
  "Sink \<Rightarrow> timepos_t \<Rightarrow> timepos_t \<Rightarrow> timecnt_t \<Rightarrow> Range option \<Rightarrow> Tracker \<Rightarrow> ChannelFilter option
     \<Rightarrow> int \<times> Sink \<times> Tracker" where
  "no_read_unlocked dst source_start start cnt loop_range tracker filter_opt = (0, dst, tracker)"

text \<open>A channel filter that drops every event it is shown.\<close>

definition reject_all :: ChannelFilter where
  "reject_all buf = (True, buf)"

text \<open>A model of three events (a note on at beat 0, a pitch bend on the second channel
  at beat 1, a note off at beat 2) and one control, for program changes, with a list.\<close>

definition note_on :: Event where
  "note_on = \<lparr>time = 0, event_type = 1, buffer = [0x90, 60, 100]\<rparr>"

definition bend_ch2 :: Event where
  "bend_ch2 = \<lparr>time = 1, event_type = 1, buffer = [0xE1, 0, 0x40]\<rparr>"

definition bend_ch1 :: Event where
  "bend_ch1 = \<lparr>time = 1, event_type = 1, buffer = [0xE0, 0, 0x40]\<rparr>"

definition note_off :: Event where
  "note_off = \<lparr>time = 2, event_type = 1, buffer = [0x80, 60, 0]\<rparr>"

definition demo_model :: MidiModel where
  "demo_model =
     \<lparr>events = [note_on, bend_ch2, note_off],
      controls = [(pgm0, \<lparr>parameter = pgm0, list_interpolation = Some Linear\<rparr>)]\<rparr>"

definition demo_recording :: MidiSource where
  "demo_recording = demo_source\<lparr>writing := True, model := Some demo_model\<rparr>"

text \<open>A cursor whose last read ended at position zero and whose iterator points at
  the second event.\<close>

definition cursor_at_zero :: MidiCursor where
  "cursor_at_zero =
     \<lparr>iter = Some 1, active_notes = {60}, last_read_end = Timepos BeatTime 0, connected = True\<rparr>"

text \<open>The same iterator after a read that ended at beat 1.\<close>

definition cursor_at_one :: MidiCursor where
  "cursor_at_one =
     \<lparr>iter = Some 1, active_notes = {60}, last_read_end = Timepos BeatTime 1, connected = True\<rparr>"

text \<open>State nodes.\<close>

definition node_sysex_state :: XMLNode where
  "node_sysex_state =
     XMLNode ''Source'' []
       [XMLNode ''AutomationState'' [(''parameter'', ''midi-system-exclusive''), (''state'', ''Write'')] []]"

definition node_sysex_style :: XMLNode where
  "node_sysex_style =
     XMLNode ''Source'' []
       [XMLNode ''InterpolationStyle'' [(''parameter'', ''midi-system-exclusive''), (''style'', ''Discrete'')] []]"

definition child_sysex_no_style :: XMLNode where
  "child_sysex_no_style = XMLNode ''InterpolationStyle'' [(''parameter'', ''midi-system-exclusive'')] []"

definition node_sysex_no_style :: XMLNode where
  "node_sysex_no_style = XMLNode ''Source'' [] [child_sysex_no_style]"

definition child_legacy_style :: XMLNode where
  "child_legacy_style = XMLNode ''InterpolationStyle'' [(''parameter'', ''midicc-0-7''), (''style'', [])] []"

definition child_legacy_state :: XMLNode where
  "child_legacy_state = XMLNode ''AutomationState'' [(''parameter'', ''midicc-0-7''), (''state'', [])] []"

definition child_no_state :: XMLNode where
  "child_no_state = XMLNode ''AutomationState'' [(''parameter'', ''midicc-0-7'')] []"

definition node_legacy_then_broken :: XMLNode where
  "node_legacy_then_broken =
     XMLNode ''Source'' [] [child_legacy_style, child_no_state, child_legacy_state]"

text \<open>A source without a model that has a position and one override in each map.\<close>

definition demo_unmodelled :: MidiSource where
  "demo_unmodelled =
     demo_source\<lparr>natural_position := Timepos AudioTime 100,
                 interpolation_style := [cc7 \<mapsto> Discrete],
                 automation_state := [cc7 \<mapsto> Off]\<rparr>"

text \<open>A source whose capture length is the largest \<open>samplecnt_t\<close>.\<close>

definition demo_full :: MidiSource where
  "demo_full = demo_source\<lparr>capture_length := 0x7FFFFFFFFFFFFFFF\<rparr>"




section \<open>Override maps without default entries\<close>

text \<open>No entry of either override map holds the value a lookup would fall back to.\<close>

definition minimal_overrides :: "Env \<Rightarrow> MidiSource \<Rightarrow> bool" where
  "minimal_overrides E s =
     (\<forall>p. interpolation_style s p \<noteq> Some (evmap_interpolation_of E p)
          \<and> automation_state s p \<noteq> Some Play)"

text \<open>A sequence of calls of the two setters.\<close>

datatype SetterCall =
    SetInterpolationOf Parameter InterpolationStyle
  | SetAutomationStateOf Parameter AutoState

fun run_setters :: "Env \<Rightarrow> SetterCall list \<Rightarrow> MidiSource \<Rightarrow> MidiSource" where
  "run_setters E [] s = s"
| "run_setters E (SetInterpolationOf p st # cs) s = run_setters E cs (set_interpolation_of E p st s)"
| "run_setters E (SetAutomationStateOf p st # cs) s = run_setters E cs (set_automation_state_of p st s)"

lemmas demo_defs =
  demo_env_def demo_source_def cc7_def pgm0_def sysex0_def demo_from_symbol_def
  demo_string_to_style_def demo_string_to_state_def

section \<open>The effective value after a setter\<close>

lemma interpolation_of_set:
  "interpolation_of E (set_interpolation_of E p st s) p = st"
  by (auto simp: set_interpolation_of_def interpolation_of_def split: option.splits)

lemma automation_state_of_set:
  "automation_state_of (set_automation_state_of p st s) p = st"
  by (auto simp: set_automation_state_of_def automation_state_of_def split: option.splits)

lemma set_interpolation_of_same:
  "interpolation_of E s p = st \<Longrightarrow> set_interpolation_of E p st s = s"
  by (simp add: set_interpolation_of_def)

lemma set_automation_state_of_same:
  "automation_state_of s p = st \<Longrightarrow> set_automation_state_of p st s = s"
  by (simp add: set_automation_state_of_def)

section \<open>Capture length\<close>

text \<open>
  C1, as the code has it. \<open>midi_write\<close> returns the count the storage backend returned.
  When the requested count is not the maximum of its time domain, the requested count in
  samples, \<open>cnt.samples()\<close>, is added to the capture length in the 64-bit arithmetic of
  \<open>samplecnt_t\<close>, whatever count the backend returned, and no signal is emitted: read as
  signed integers the capture length grows by exactly that count when the sum lies in the
  range of a signed 64-bit integer, and is that sum wrapped into the range otherwise. When
  the requested count is the maximum, the capture length stays as the backend left it and
  \<open>Invalidated\<close> is emitted. Both are relative to the source as the backend left it.
\<close>

theorem midi_write_capture_length:
  "write_unlocked source source_start cnt s = (r1, s1) \<Longrightarrow>
   midi_write E write_unlocked source source_start cnt s = (ret, s') \<Longrightarrow>
     ret = r1
     \<and> (if cnt = cnt_max E (time_domain cnt)
        then capture_length s' = capture_length s1
             \<and> signals s' = signals s1 @ [Invalidated (transport_rolling E)]
        else capture_length s' = capture_length s1 + cnt_samples E cnt
             \<and> sint (capture_length s')
                 = signed_take_bit 63 (sint (capture_length s1) + sint (cnt_samples E cnt))
             \<and> (- (2 ^ 63) \<le> sint (capture_length s1) + sint (cnt_samples E cnt)
                  \<and> sint (capture_length s1) + sint (cnt_samples E cnt) < 2 ^ 63 \<longrightarrow>
                sint (capture_length s')
                  = sint (capture_length s1) + sint (cnt_samples E cnt))
             \<and> signals s' = signals s1)"
proof -
  assume b: "write_unlocked source source_start cnt s = (r1, s1)"
    and w: "midi_write E write_unlocked source source_start cnt s = (ret, s')"
  show ?thesis
  proof (cases "cnt = cnt_max E (time_domain cnt)")
    case True
    with b w show ?thesis
      by (auto simp: midi_write_def invalidate_def)
  next
    case False
    with b w have r: "ret = r1"
      and c: "capture_length s' = capture_length s1 + cnt_samples E cnt"
      and g: "signals s' = signals s1"
      by (auto simp: midi_write_def)
    have t: "sint (capture_length s')
               = signed_take_bit 63 (sint (capture_length s1) + sint (cnt_samples E cnt))"
      unfolding c by (simp add: sint_word_add)
    have "sint (capture_length s') = sint (capture_length s1) + sint (cnt_samples E cnt)"
      if "- (2 ^ 63) \<le> sint (capture_length s1) + sint (cnt_samples E cnt)"
        and "sint (capture_length s1) + sint (cnt_samples E cnt) < 2 ^ 63"
      unfolding t using that by (rule signed_take_bit_int_eq_self)
    with False r c g t show ?thesis by simp
  qed
qed

theorem midi_write_capture_length_witness:
  "short_write () (Timepos AudioTime 0) (Timecnt AudioTime 5) demo_source = (Timecnt AudioTime 3, demo_source)
   \<and> midi_write demo_env short_write () (Timepos AudioTime 0) (Timecnt AudioTime 5) demo_source
       = (Timecnt AudioTime 3, demo_source\<lparr>capture_length := 5\<rparr>)
   \<and> Timecnt AudioTime 5 \<noteq> cnt_max demo_env (time_domain (Timecnt AudioTime 5))
   \<and> - (2 ^ 63) \<le> sint (capture_length demo_source) + sint (cnt_samples demo_env (Timecnt AudioTime 5))
   \<and> sint (capture_length demo_source) + sint (cnt_samples demo_env (Timecnt AudioTime 5)) < 2 ^ 63
   \<and> sint (capture_length (demo_source\<lparr>capture_length := 5\<rparr>))
       = sint (capture_length demo_source) + sint (cnt_samples demo_env (Timecnt AudioTime 5))
   \<and> signals (demo_source\<lparr>capture_length := 5\<rparr>) = signals demo_source"
proof -
  have b: "short_write () (Timepos AudioTime 0) (Timecnt AudioTime 5) demo_source = (Timecnt AudioTime 3, demo_source)"
    by (simp add: short_write_def)
  have w: "midi_write demo_env short_write () (Timepos AudioTime 0) (Timecnt AudioTime 5) demo_source
       = (Timecnt AudioTime 3, demo_source\<lparr>capture_length := 5\<rparr>)"
    by (simp add: midi_write_def short_write_def demo_env_def demo_source_def)
  have m: "Timecnt AudioTime 5 \<noteq> cnt_max demo_env (time_domain (Timecnt AudioTime 5))"
    by (simp add: demo_env_def)
  have v: "sint (capture_length demo_source) = 0" "sint (cnt_samples demo_env (Timecnt AudioTime 5)) = 5"
    by (simp_all add: demo_source_def demo_env_def)
  from midi_write_capture_length [OF b w] m b w v show ?thesis by simp
qed

text \<open>The sentinel on the same source: nothing is added, the signal is emitted.\<close>

lemma midi_write_sentinel_example:
  "midi_write demo_env short_write () (Timepos AudioTime 0) (cnt_max demo_env AudioTime) demo_source
       = (Timecnt AudioTime 3, demo_source\<lparr>signals := [Invalidated False]\<rparr>)"
  by (simp add: midi_write_def short_write_def demo_env_def demo_source_def invalidate_def)

text \<open>At the largest capture length one more sample wraps to the smallest.\<close>

lemma midi_write_wraps_example:
  "sint (capture_length demo_full) = 9223372036854775807
   \<and> sint (capture_length
        (snd (midi_write demo_env short_write () (Timepos AudioTime 0) (Timecnt AudioTime 1) demo_full)))
       = - 9223372036854775808"
  by (simp add: midi_write_def short_write_def demo_env_def demo_source_def demo_full_def)

text \<open>
  C1 as stated fails where the backend returns another count than the one requested:
  five samples are requested (not the maximum), the backend returns three, and the
  capture length grows by five, not by the three the call returns.
\<close>

theorem midi_write_returned_count_counterexample:
  "Timecnt AudioTime 5 \<noteq> cnt_max demo_env (time_domain (Timecnt AudioTime 5))
   \<and> fst (midi_write demo_env short_write () (Timepos AudioTime 0) (Timecnt AudioTime 5) demo_source)
       = Timecnt AudioTime 3
   \<and> sint (capture_length demo_source) = 0
   \<and> sint (cnt_samples demo_env
        (fst (midi_write demo_env short_write () (Timepos AudioTime 0) (Timecnt AudioTime 5) demo_source))) = 3
   \<and> sint (capture_length
        (snd (midi_write demo_env short_write () (Timepos AudioTime 0) (Timecnt AudioTime 5) demo_source))) = 5
   \<and> capture_length (snd (midi_write demo_env short_write () (Timepos AudioTime 0) (Timecnt AudioTime 5) demo_source))
       \<noteq> capture_length demo_source
          + cnt_samples demo_env
              (fst (midi_write demo_env short_write () (Timepos AudioTime 0) (Timecnt AudioTime 5) demo_source))"
  by (simp add: midi_write_def short_write_def demo_env_def demo_source_def)

section \<open>Setting a value that is already in effect\<close>

text \<open>
  C7. When the style given to \<open>set_interpolation_of\<close> is the one \<open>interpolation_of\<close>
  returns, the source is returned as it was: the override map is the same and no signal
  was added. The same holds for \<open>set_automation_state_of\<close> and
  \<open>automation_state_of\<close>. Calling either setter a second time with the same value
  gives the source the first call gave.
\<close>

theorem setting_the_effective_value_changes_nothing:
  "(st = interpolation_of E s p \<longrightarrow>
      set_interpolation_of E p st s = s
      \<and> interpolation_style (set_interpolation_of E p st s) = interpolation_style s
      \<and> signals (set_interpolation_of E p st s) = signals s)
   \<and> (a = automation_state_of s p \<longrightarrow>
      set_automation_state_of p a s = s
      \<and> automation_state (set_automation_state_of p a s) = automation_state s
      \<and> signals (set_automation_state_of p a s) = signals s)
   \<and> set_interpolation_of E p st (set_interpolation_of E p st s) = set_interpolation_of E p st s
   \<and> set_automation_state_of p a (set_automation_state_of p a s) = set_automation_state_of p a s"
  by (simp add: set_interpolation_of_same set_automation_state_of_same
      interpolation_of_set automation_state_of_set)

theorem setting_the_effective_value_changes_nothing_witness:
  "Linear = interpolation_of demo_env demo_source cc7
   \<and> set_interpolation_of demo_env cc7 Linear demo_source = demo_source
   \<and> Play = automation_state_of demo_source cc7
   \<and> set_automation_state_of cc7 Play demo_source = demo_source
   \<and> signals (set_interpolation_of demo_env cc7 Discrete demo_source) = [InterpolationChanged cc7 Discrete]
   \<and> set_interpolation_of demo_env cc7 Discrete (set_interpolation_of demo_env cc7 Discrete demo_source)
       = set_interpolation_of demo_env cc7 Discrete demo_source"
proof -
  have i: "Linear = interpolation_of demo_env demo_source cc7"
    by (simp add: interpolation_of_def demo_env_def demo_source_def cc7_def)
  have a: "Play = automation_state_of demo_source cc7"
    by (simp add: automation_state_of_def demo_source_def)
  have sig: "signals (set_interpolation_of demo_env cc7 Discrete demo_source) = [InterpolationChanged cc7 Discrete]"
    by (simp add: set_interpolation_of_def interpolation_of_def demo_env_def demo_source_def cc7_def)
  from i a sig
    setting_the_effective_value_changes_nothing [of Linear demo_env demo_source cc7 Play]
    setting_the_effective_value_changes_nothing [of Discrete demo_env demo_source cc7 Play]
  show ?thesis by simp
qed

section \<open>Cloning into another source\<close>

text \<open>
  C10. When the source has no model, \<open>write_to\<close> returns -1 and leaves the target with
  the natural position of the source and with both override maps of the source in place
  of its own: the target is changed before the model is looked at.
\<close>

theorem write_to_without_model_changes_target:
  "model this = None \<Longrightarrow>
     write_to E this newsrc b e =
       (- 1, newsrc\<lparr>natural_position := natural_position this,
                    interpolation_style := interpolation_style this,
                    automation_state := automation_state this\<rparr>)"
  by (simp add: write_to_def copy_interpolation_from_def copy_automation_state_from_def)

theorem write_to_without_model_changes_target_witness:
  "model demo_unmodelled = None
   \<and> write_to demo_env demo_unmodelled demo_source 0 (beats_max demo_env) =
       (- 1, demo_source\<lparr>natural_position := Timepos AudioTime 100,
                         interpolation_style := [cc7 \<mapsto> Discrete],
                         automation_state := [cc7 \<mapsto> Off]\<rparr>)
   \<and> natural_position (snd (write_to demo_env demo_unmodelled demo_source 0 (beats_max demo_env)))
       \<noteq> natural_position demo_source
   \<and> interpolation_style (snd (write_to demo_env demo_unmodelled demo_source 0 (beats_max demo_env))) cc7
       \<noteq> interpolation_style demo_source cc7
   \<and> automation_state (snd (write_to demo_env demo_unmodelled demo_source 0 (beats_max demo_env))) cc7
       \<noteq> automation_state demo_source cc7"
proof -
  have m: "model demo_unmodelled = None"
    by (simp add: demo_unmodelled_def demo_source_def)
  from write_to_without_model_changes_target [OF m, of demo_env demo_source 0 "beats_max demo_env"] m
  show ?thesis
    by (simp add: demo_unmodelled_def demo_source_def)
qed

text \<open>
  C5. With a model attached, \<open>write_to\<close> returns 0 and the target, after the natural
  position and the two maps, receives these calls in this order. For \<open>begin = 0\<close> and
  \<open>end\<close> the maximum of \<open>Temporal::Beats\<close>: the model's \<open>write_to\<close>,
  \<open>flush_midi\<close>, \<open>destroy_model\<close>, \<open>load_model\<close>, \<open>prevent_deletion\<close>. For any
  other range: the model's \<open>write_section_to\<close> with \<open>begin\<close> and \<open>end\<close>,
  \<open>flush_midi\<close>, \<open>load_model\<close> with the force flag, \<open>prevent_deletion\<close>, and no
  \<open>destroy_model\<close>. In both the flush comes before the load.
\<close>

theorem write_to_full_and_partial:
  "model this = Some m \<Longrightarrow>
     write_to E this newsrc b e =
       (0, newsrc\<lparr>natural_position := natural_position this,
                  interpolation_style := interpolation_style this,
                  automation_state := automation_state this,
                  calls := calls newsrc @
                    (if b = 0 \<and> e = beats_max E
                     then [ModelWriteTo, FlushMidi, DestroyModel, LoadModel None, PreventDeletion]
                     else [ModelWriteSectionTo b e, FlushMidi, LoadModel (Some True), PreventDeletion])\<rparr>)"
  by (auto simp: write_to_def copy_interpolation_from_def copy_automation_state_from_def call_def Let_def)

theorem write_to_full_and_partial_witness:
  "model demo_recording = Some demo_model
   \<and> fst (write_to demo_env demo_recording demo_source 0 (beats_max demo_env)) = 0
   \<and> calls (snd (write_to demo_env demo_recording demo_source 0 (beats_max demo_env)))
       = [ModelWriteTo, FlushMidi, DestroyModel, LoadModel None, PreventDeletion]
   \<and> fst (write_to demo_env demo_recording demo_source 1 2) = 0
   \<and> calls (snd (write_to demo_env demo_recording demo_source 1 2))
       = [ModelWriteSectionTo 1 2, FlushMidi, LoadModel (Some True), PreventDeletion]
   \<and> calls (snd (write_to demo_env demo_recording demo_source 0 2))
       = [ModelWriteSectionTo 0 2, FlushMidi, LoadModel (Some True), PreventDeletion]"
proof -
  have m: "model demo_recording = Some demo_model"
    by (simp add: demo_recording_def)
  have c: "calls demo_source = []" and x: "beats_max demo_env \<noteq> 2"
    by (simp_all add: demo_source_def demo_env_def)
  from write_to_full_and_partial [OF m, of demo_env demo_source 0 "beats_max demo_env"]
    write_to_full_and_partial [OF m, of demo_env demo_source 1 2]
    write_to_full_and_partial [OF m, of demo_env demo_source 0 2] m c x
  show ?thesis by simp
qed

section \<open>Deserialising the children\<close>

lemma set_state_child_interpolation:
  "name c = ''InterpolationStyle'' \<Longrightarrow> get_property c ''parameter'' = Some symb \<Longrightarrow>
   \<not> rejected_type (ptype (evmap_from_symbol E symb)) \<Longrightarrow>
   set_state_child E c s =
     (case get_property c ''style'' of
        Some [] \<Rightarrow>
          Continue (set_interpolation_of E (evmap_from_symbol E symb)
            (if evmap_interpolation_of E (evmap_from_symbol E symb) = Discrete then Linear else Discrete) s) []
      | _ \<Rightarrow>
         (case get_property_style E c ''style'' of
            None \<Rightarrow> ReturnError MissingStyle
          | Some st \<Rightarrow> Continue (set_interpolation_of E (evmap_from_symbol E symb) st s) []))"
  by (cases "ptype (evmap_from_symbol E symb)")
    (simp_all add: set_state_child_def rejected_type_def Let_def)

lemma set_state_child_rejected:
  "name c = ''InterpolationStyle'' \<Longrightarrow> get_property c ''parameter'' = Some symb \<Longrightarrow>
   rejected_type (ptype (evmap_from_symbol E symb)) \<Longrightarrow>
   \<exists>m. set_state_child E c s = Continue s [m]"
  by (cases "ptype (evmap_from_symbol E symb)")
    (simp_all add: set_state_child_def rejected_type_def Let_def)

lemma set_state_child_automation:
  "name c = ''AutomationState'' \<Longrightarrow> get_property c ''parameter'' = Some symb \<Longrightarrow>
   set_state_child E c s =
     (case get_property c ''state'' of
        Some [] \<Rightarrow> Continue (set_automation_state_of (evmap_from_symbol E symb) Off s) []
      | _ \<Rightarrow>
         (case get_property_state E c ''state'' of
            None \<Rightarrow> ReturnError MissingState
          | Some st \<Rightarrow> Continue (set_automation_state_of (evmap_from_symbol E symb) st s) []))"
  by (simp add: set_state_child_def Let_def)

lemma set_state_child_other:
  "name c \<noteq> ''InterpolationStyle'' \<Longrightarrow> name c \<noteq> ''AutomationState'' \<Longrightarrow>
   set_state_child E c s = Continue s []"
  by (simp add: set_state_child_def)

lemma set_state_child_no_parameter:
  "get_property c ''parameter'' = None \<Longrightarrow>
   set_state_child E c s =
     (if name c = ''InterpolationStyle'' then ReturnError MissingParameterInterpolationStyle
      else if name c = ''AutomationState'' then ReturnError MissingParameterAutomationState
      else Continue s [])"
  by (simp add: set_state_child_def)

lemma returns_error_iff:
  "(\<exists>m. set_state_child E c s = ReturnError m) = lacks_required_field E c"
proof (cases "get_property c ''parameter''")
  case None
  then show ?thesis
    by (auto simp: set_state_child_no_parameter lacks_required_field_def)
next
  case (Some symb)
  show ?thesis
  proof (cases "name c = ''InterpolationStyle''")
    case True
    show ?thesis
    proof (cases "rejected_type (ptype (evmap_from_symbol E symb))")
      case True
      with set_state_child_rejected [OF \<open>name c = ''InterpolationStyle''\<close> Some True, of s]
      show ?thesis using Some \<open>name c = ''InterpolationStyle''\<close>
        by (auto simp: lacks_required_field_def)
    next
      case False
      with set_state_child_interpolation [OF True Some False, of s]
      show ?thesis using Some True
        by (auto simp: lacks_required_field_def unreadable_def get_property_style_def
            split: option.splits list.splits)
    qed
  next
    case False
    show ?thesis
    proof (cases "name c = ''AutomationState''")
      case True
      with set_state_child_automation [OF True Some, of E s]
      show ?thesis using Some False
        by (auto simp: lacks_required_field_def unreadable_def get_property_state_def
            split: option.splits list.splits)
    next
      case False
      with \<open>name c \<noteq> ''InterpolationStyle''\<close> show ?thesis
        by (simp add: set_state_child_other lacks_required_field_def)
    qed
  qed
qed

lemma set_state_children_status:
  "fst (set_state_children E cs s log) = (if list_ex (lacks_required_field E) cs then - 1 else 0)"
proof (induction cs arbitrary: s log)
  case Nil
  show ?case by simp
next
  case (Cons c cs)
  show ?case
  proof (cases "set_state_child E c s")
    case (ReturnError m)
    then have "lacks_required_field E c" using returns_error_iff [of E c s] by auto
    with ReturnError show ?thesis by simp
  next
    case (Continue s' ms)
    then have "\<not> lacks_required_field E c" using returns_error_iff [of E c s] by auto
    with Continue Cons.IH [of s' "log @ ms"] show ?thesis by simp
  qed
qed

lemma set_state_children_abort:
  "\<not> list_ex (lacks_required_field E) pre \<Longrightarrow> lacks_required_field E c \<Longrightarrow>
   fst (snd (set_state_children E (pre @ c # post) s log)) = fst (snd (set_state_children E pre s log))"
proof (induction pre arbitrary: s log)
  case Nil
  then obtain m where "set_state_child E c s = ReturnError m"
    using returns_error_iff [of E c s] by auto
  then show ?case by simp
next
  case (Cons a pre)
  then have "\<not> lacks_required_field E a" by simp
  then obtain s' ms where "set_state_child E a s = Continue s' ms"
    using returns_error_iff [of E a s] by (cases "set_state_child E a s") auto
  with Cons show ?case by simp
qed


text \<open>
  C9, as the code has it. \<open>set_state\<close> returns -1 when some child lacks a field the loop
  asks of it, and 0 otherwise. The fields asked for are the parameter symbol of an
  InterpolationStyle or AutomationState child, the state of an AutomationState child, and
  the style of an InterpolationStyle child whose parameter type passed the type switch;
  a value is lacking when the property is absent or its non-empty text does not convert.
  The style of an InterpolationStyle child with a system-exclusive or unrecognised
  parameter type is never looked at. The return is immediate: the source is left as the
  children before the first such child made it.
\<close>

theorem set_state_status:
  "fst (set_state E node s) = (if list_ex (lacks_required_field E) (children node) then - 1 else 0)
   \<and> (children node = pre @ c # post \<and> \<not> list_ex (lacks_required_field E) pre
        \<and> lacks_required_field E c \<longrightarrow>
      fst (snd (set_state E node s))
        = fst (snd (set_state E (XMLNode (name node) (properties node) pre) s)))"
  by (simp add: set_state_def set_state_children_status set_state_children_abort get_property_def)

theorem set_state_status_witness:
  "children node_legacy_then_broken = [child_legacy_style] @ child_no_state # [child_legacy_state]
   \<and> \<not> list_ex (lacks_required_field demo_env) [child_legacy_style]
   \<and> lacks_required_field demo_env child_no_state
   \<and> fst (set_state demo_env node_legacy_then_broken demo_source) = - 1
   \<and> fst (snd (set_state demo_env node_legacy_then_broken demo_source))
       = fst (snd (set_state demo_env (XMLNode ''Source'' [] [child_legacy_style]) demo_source))
   \<and> fst (set_state demo_env (XMLNode ''Source'' [] [child_legacy_style]) demo_source) = 0"
proof -
  have c: "children node_legacy_then_broken = [child_legacy_style] @ child_no_state # [child_legacy_state]"
    by (simp add: node_legacy_then_broken_def)
  have p: "\<not> list_ex (lacks_required_field demo_env) [child_legacy_style]"
    by (simp add: lacks_required_field_def child_legacy_style_def get_property_def unreadable_def
        rejected_type_def demo_env_def demo_from_symbol_def)
  have l: "lacks_required_field demo_env child_no_state"
    by (simp add: lacks_required_field_def child_no_state_def get_property_def unreadable_def)
  have n: "name node_legacy_then_broken = ''Source''" "properties node_legacy_then_broken = []"
    by (simp_all add: node_legacy_then_broken_def)
  from set_state_status [of demo_env node_legacy_then_broken demo_source
      "[child_legacy_style]" child_no_state "[child_legacy_state]"]
    set_state_status [of demo_env "XMLNode ''Source'' [] [child_legacy_style]" demo_source
      "[]" child_no_state "[]"]
    c p l n
  show ?thesis by simp
qed

text \<open>
  C9 as stated fails on an InterpolationStyle child that names a system-exclusive
  parameter and has no style: the child is skipped before its style is asked for, and
  \<open>set_state\<close> returns 0.
\<close>

theorem set_state_skipped_child_counterexample:
  "name child_sysex_no_style = ''InterpolationStyle''
   \<and> get_property child_sysex_no_style ''parameter'' = Some ''midi-system-exclusive''
   \<and> get_property child_sysex_no_style ''style'' = None
   \<and> children node_sysex_no_style = [child_sysex_no_style]
   \<and> set_state demo_env node_sysex_no_style demo_source
       = (0, demo_source, [IsSystemExclusive ''midi-system-exclusive''])
   \<and> \<not> fst (set_state demo_env node_sysex_no_style demo_source) < 0"
  by (simp add: set_state_def set_state_child_def node_sysex_no_style_def child_sysex_no_style_def
      get_property_def demo_env_def demo_from_symbol_def Let_def)

text \<open>
  C4 on the code. An AutomationState child that names a system-exclusive parameter is
  applied: the state is stored for the parameter, the change is signalled and nothing is
  logged. The InterpolationStyle child for the same parameter is logged and skipped.
\<close>

theorem sysex_automation_state_is_applied:
  "set_state demo_env node_sysex_state demo_source
     = (0, demo_source\<lparr>automation_state := [sysex0 \<mapsto> OtherState 0],
                      signals := [AutomationStateChanged sysex0 (OtherState 0)]\<rparr>, [])
   \<and> set_state demo_env node_sysex_style demo_source
     = (0, demo_source, [IsSystemExclusive ''midi-system-exclusive''])"
  by (simp add: set_state_def set_state_child_def node_sysex_state_def node_sysex_style_def
      get_property_def get_property_state_def demo_env_def demo_from_symbol_def sysex0_def
      demo_string_to_state_def set_automation_state_of_def automation_state_of_def demo_source_def Let_def)






section \<open>Reading through a cursor\<close>

text \<open>
  C6, as the code has it. With a model attached, the loop of \<open>midi_read\<close> starts from the
  cursor's cached iterator exactly when the cursor's last-read-end is not zero, the
  requested start equals it, and the cached iterator is valid; the active notes are then
  kept. In every other case the loop starts from the model's \<open>begin\<close> at the start in
  beats and the active notes are cleared. In both cases the cursor's last-read-end
  becomes start + cnt, and the call returns \<open>cnt\<close>.
\<close>

theorem midi_read_iterator_choice:
  "model s = Some m \<Longrightarrow>
   midi_read E read_unlocked s dst source_start start cnt loop_range cursor tracker filter_opt filtered =
     (let resumed = (\<not> pos_is_zero E (last_read_end cursor) \<and> start = last_read_end cursor
                      \<and> iter_valid (iter cursor));
          i0 = (if resumed then iter cursor
                else seq_begin E (events m) (pos_beats E start) filtered)
      in case read_from E loop_range filter_opt (pos_beats E source_start)
                (pos_beats E (pos_plus_pos E source_start start))
                (pos_beats E source_start + pos_beats E start + cnt_beats E cnt) m i0 dst tracker
         of
           Inl err \<Rightarrow> Inl err
         | Inr (i', dst', tracker') \<Rightarrow>
             Inr (cnt, dst',
                  \<lparr>iter = i',
                   active_notes = (if resumed then active_notes cursor else {}),
                   last_read_end = pos_plus_cnt E start cnt,
                   connected = (if resumed then connected cursor else True)\<rparr>,
                  tracker'))"
  by (auto simp: midi_read_def find_iterator_def linear_read_def Let_def split: sum.splits)

lemmas read_defs = midi_read_def find_iterator_def linear_read_def iter_valid_def read_from_def
  emit_event_def is_channel_event_def demo_recording_def demo_model_def note_on_def note_off_def
  bend_ch1_def bend_ch2_def

theorem midi_read_iterator_choice_witness:
  "model demo_recording = Some demo_model
   \<and> \<not> pos_is_zero demo_env (last_read_end cursor_at_one)
   \<and> Timepos BeatTime 1 = last_read_end cursor_at_one
   \<and> iter_valid (iter cursor_at_one)
   \<and> midi_read demo_env no_read_unlocked demo_recording [] (Timepos BeatTime 0) (Timepos BeatTime 1)
        (Timecnt BeatTime 2) None cursor_at_one None None {}
       = Inr (Timecnt BeatTime 2, [(1, 1, 3, [0xE1, 0, 0x40]), (2, 1, 3, [0x80, 60, 0])],
              \<lparr>iter = None, active_notes = {60}, last_read_end = Timepos BeatTime 3, connected = True\<rparr>,
              None)"
proof -
  have m: "model demo_recording = Some demo_model"
    by (simp add: demo_recording_def)
  from midi_read_iterator_choice [OF m, of demo_env no_read_unlocked "[]" "Timepos BeatTime 0"
      "Timepos BeatTime 1" "Timecnt BeatTime 2" None cursor_at_one None None "{}"] m
  show ?thesis
    by (simp add: iter_valid_def read_from_def emit_event_def demo_model_def note_on_def
        note_off_def bend_ch2_def cursor_at_one_def demo_env_def)
qed

text \<open>
  C6 as stated fails on a cursor whose last-read-end is zero: the requested start equals
  it and the cached iterator (at the second event) is valid, yet the read starts over
  from the first event, which it writes, and clears the active notes.
\<close>

theorem midi_read_at_zero_counterexample:
  "Timepos BeatTime 0 = last_read_end cursor_at_zero
   \<and> iter cursor_at_zero = Some 1
   \<and> iter_valid (iter cursor_at_zero)
   \<and> midi_read demo_env no_read_unlocked demo_recording [] (Timepos BeatTime 0) (Timepos BeatTime 0)
        (Timecnt BeatTime 1) None cursor_at_zero None None {}
       = Inr (Timecnt BeatTime 1, [(0, 1, 3, [0x90, 60, 100])],
              \<lparr>iter = Some 1, active_notes = {}, last_read_end = Timepos BeatTime 1, connected = True\<rparr>,
              None)"
  by (simp add: read_defs cursor_at_zero_def demo_env_def demo_source_def)

text \<open>
  C2 on the code. A pitch bend on the second channel has the status byte \<open>0xE1\<close>, whose
  high nibble is \<open>0xE\<close>; \<open>is_channel_event\<close> is false for it, so with a filter that
  drops every event it is still written, unfiltered, while the pitch bend on the first
  channel (\<open>0xE0\<close>) goes through the filter and is dropped. A read of the whole model
  through that filter writes the one event \<open>0xE1\<close>.
\<close>

theorem pitch_bend_on_channel_2_bypasses_filter:
  "(0xE1 :: u8) AND 0xF0 = 0xE0
   \<and> \<not> is_channel_event 0xE1
   \<and> emit_event (Some reject_all) 7 bend_ch2 [] None = Inr ([(7, 1, 3, [0xE1, 0, 0x40])], None)
   \<and> is_channel_event 0xE0
   \<and> emit_event (Some reject_all) 7 bend_ch1 [] None = Inr ([], None)
   \<and> midi_read demo_env no_read_unlocked demo_recording [] (Timepos BeatTime 0) (Timepos BeatTime 0)
        (Timecnt BeatTime 3) None cursor_at_zero None (Some reject_all) {}
       = Inr (Timecnt BeatTime 3, [(1, 1, 3, [0xE1, 0, 0x40])],
              \<lparr>iter = None, active_notes = {}, last_read_end = Timepos BeatTime 3, connected = True\<rparr>,
              None)"
  by (simp add: read_defs cursor_at_zero_def demo_env_def demo_source_def reject_all_def)

section \<open>The end of a streaming write\<close>

text \<open>
  C3 on the code. Program changes are discrete by default here and the source has no
  override for them; after \<open>mark_midi_streaming_write_completed\<close> on a model with a
  program-change control that has a list, the override map holds \<open>Discrete\<close> for that
  parameter, an entry equal to the default.
\<close>

theorem write_completed_stores_default_style:
  "evmap_interpolation_of demo_env pgm0 = Discrete
   \<and> interpolation_style demo_recording pgm0 = None
   \<and> interpolation_style
        (mark_midi_streaming_write_completed demo_env True (Timecnt BeatTime 3) demo_recording) pgm0
       = Some Discrete"
  by (simp add: mark_midi_streaming_write_completed_def demo_recording_def demo_model_def
      demo_env_def demo_source_def pgm0_def map_insert_def invalidate_def Let_def)

section \<open>What the setters keep\<close>

lemma minimal_set_interpolation_of:
  "minimal_overrides E s \<Longrightarrow> minimal_overrides E (set_interpolation_of E p st s)"
  by (auto simp: minimal_overrides_def set_interpolation_of_def)

lemma minimal_set_automation_state_of:
  "minimal_overrides E s \<Longrightarrow> minimal_overrides E (set_automation_state_of p st s)"
  by (auto simp: minimal_overrides_def set_automation_state_of_def)

lemma minimal_run_setters:
  "minimal_overrides E s \<Longrightarrow> minimal_overrides E (run_setters E cs s)"
  by (induction E cs s rule: run_setters.induct)
    (simp_all add: minimal_set_interpolation_of minimal_set_automation_state_of)

lemma minimal_set_state_child:
  "minimal_overrides E s \<Longrightarrow> set_state_child E c s = Continue s' ms \<Longrightarrow> minimal_overrides E s'"
  by (auto simp: set_state_child_def Let_def minimal_set_interpolation_of minimal_set_automation_state_of
      split: if_splits option.splits AutomationType.splits list.splits)

lemma minimal_set_state_children:
  "minimal_overrides E s \<Longrightarrow> minimal_overrides E (fst (snd (set_state_children E cs s log)))"
proof (induction cs arbitrary: s log)
  case Nil
  then show ?case by simp
next
  case (Cons c cs)
  then show ?case
    by (cases "set_state_child E c s") (auto dest: minimal_set_state_child)
qed

text \<open>
  The setters alone keep the override maps free of default entries: from a source whose
  maps hold no entry equal to the default (the style of the event type map, or
  \<open>Play\<close>), every sequence of \<open>set_interpolation_of\<close> and \<open>set_automation_state_of\<close>
  calls, and \<open>set_state\<close>, which only uses them, ends in such a source; and a parameter
  without an entry is looked up as the default.
\<close>

theorem setters_keep_overrides_minimal:
  "minimal_overrides E s \<Longrightarrow>
     minimal_overrides E (run_setters E cs s)
     \<and> minimal_overrides E (fst (snd (set_state E node s)))
     \<and> (interpolation_style s p = None \<longrightarrow> interpolation_of E s p = evmap_interpolation_of E p)
     \<and> (automation_state s p = None \<longrightarrow> automation_state_of s p = Play)"
proof -
  assume m: "minimal_overrides E s"
  have c: "minimal_overrides E (s\<lparr>captured_for := v\<rparr>)" for v
    using m by (simp add: minimal_overrides_def)
  have "minimal_overrides E (fst (snd (set_state E node s)))"
    unfolding set_state_def
    by (cases "get_property node ''captured-for''") (simp_all add: m c minimal_set_state_children)
  moreover have "minimal_overrides E (run_setters E cs s)"
    using m by (rule minimal_run_setters)
  ultimately show ?thesis
    by (simp add: interpolation_of_def automation_state_of_def)
qed

theorem setters_keep_overrides_minimal_witness:
  "minimal_overrides demo_env demo_source
   \<and> minimal_overrides demo_env
       (run_setters demo_env
          [SetInterpolationOf cc7 Discrete, SetAutomationStateOf cc7 Off, SetInterpolationOf cc7 Linear]
          demo_source)
   \<and> interpolation_style demo_source pgm0 = None
   \<and> interpolation_of demo_env demo_source pgm0 = Discrete
   \<and> automation_state demo_source pgm0 = None
   \<and> automation_state_of demo_source pgm0 = Play"
proof -
  have m: "minimal_overrides demo_env demo_source"
    by (simp add: minimal_overrides_def demo_source_def)
  have n: "interpolation_style demo_source pgm0 = None" "automation_state demo_source pgm0 = None"
    "evmap_interpolation_of demo_env pgm0 = Discrete"
    by (simp_all add: demo_source_def demo_env_def pgm0_def)
  from setters_keep_overrides_minimal [OF m,
      of "[SetInterpolationOf cc7 Discrete, SetAutomationStateOf cc7 Off, SetInterpolationOf cc7 Linear]"
         "XMLNode ''Source'' [] []" pgm0] m n
  show ?thesis by simp
qed

section \<open>The status bytes taken for channel events\<close>

lemma is_channel_event_all_bytes:
  "\<forall>n\<in>set [0..<256].
     is_channel_event (of_nat n) = (0x80 \<le> (of_nat n::u8) \<and> (of_nat n::u8) \<le> 0xE0)"
  by code_simp

lemma unat_u8_less: "unat (st :: u8) < 256"
  using unsigned_less [of st, where ?'a = nat] by simp

text \<open>
  \<open>is_channel_event\<close> holds exactly for the status bytes from \<open>0x80\<close> to \<open>0xE0\<close>:
  every channel of note off up to channel pressure, and the first channel only of pitch
  bend.
\<close>

theorem is_channel_event_range:
  "is_channel_event st = (0x80 \<le> st \<and> st \<le> 0xE0)"
proof -
  have "unat st \<in> set [0..<256]"
    using unat_u8_less [of st] by simp
  with is_channel_event_all_bytes
  have "is_channel_event (of_nat (unat st))
          = (0x80 \<le> (of_nat (unat st)::u8) \<and> (of_nat (unat st)::u8) \<le> 0xE0)"
    by blast
  then show ?thesis by simp
qed

end
